theory Spec2Isabelle
  imports Complex_Main
begin

section \<open>The review record of kw\_webapp/models.py\<close>

text \<open>
  The scheduling methods of class \<open>UserSpecific\<close> (kw\_webapp/models.py, lines 209-393)
  are embedded as functions from a record to a result. The conventions:
  \<^item> a \<open>DateTimeField\<close> value is an integer: the microseconds between \<open>datetime.min\<close>
    (taken in the value's own time zone) and the value; a nullable field is an \<open>option\<close>.
    A \<open>timedelta\<close> is an integer number of microseconds. The bounded range of Python's
    \<open>datetime\<close> (years 1 to 9999) is not part of the model;
  \<^item> the \<open>PositiveIntegerField\<close>s \<open>correct\<close>, \<open>incorrect\<close> and \<open>streak\<close> are naturals;
  \<^item> \<open>timezone.now()\<close> is an argument, one for every call the method makes;
  \<^item> an exception is a value \<open>Inl e\<close>; a method that returns gives \<open>Inr\<close> of the
    object after the call;
  \<^item> \<open>self.save()\<close> writes the object to the database and leaves the object unchanged:
    the functions give the object as it is when the method ends. (\<open>answered_incorrectly\<close>
    saves before it recomputes \<open>critical\<close>, so the row it writes still has the flag of
    before the call; the object has the new one.)
  \<^item> the values of module \<open>kw_webapp.constants\<close> are parameters: each constant the
    methods read is a field of the record \<open>config\<close>, and every function that reads one
    takes the configuration as its first argument. The foreign keys, the notes and the
    WaniKani fields of the class are left out of the record \<open>UserSpecific\<close>: no
    scheduling method reads or writes them.
\<close>

datatype error = ZeroDivisionError | TypeError | AttributeError | KeyError

record config =
  SRS_TIMES :: "nat \<Rightarrow> nat option"
    \<comment> \<open>\<open>constants.SRS_TIMES\<close>: a dictionary from streak to whole hours until the next
        review\<close>
  BURNED_STREAK :: nat
    \<comment> \<open>\<open>constants.WANIKANI_SRS_LEVELS[WkSrsLevel.BURNED.name][0]\<close>\<close>
  MINIMUM_ATTEMPT_COUNT_FOR_CRITICALITY :: nat
  CRITICALITY_THRESHOLD :: rat
    \<comment> \<open>a float literal in the source: the field is the decimal fraction it denotes, and
        the quotient of the counters is taken in the rationals. For a threshold of a few
        decimal digits and counters in the range of the database column, the float
        comparison gives the same answers\<close>
  REVIEW_ROUNDING_TIME :: nat
    \<comment> \<open>\<open>constants.REVIEW_ROUNDING_TIME.total_seconds()\<close>, a whole number of seconds\<close>

record UserSpecific =
  correct :: nat
  incorrect :: nat
  streak :: nat
  last_studied :: "int option"
  needs_review :: bool
  unlock_date :: int
  next_review_date :: "int option"
  burned :: bool
  hidden :: bool
  critical :: bool

subsection \<open>Time arithmetic\<close>

definition hours :: "nat \<Rightarrow> int" where
  \<comment> \<open>\<open>timedelta(hours=h)\<close>\<close>
  "hours h = int h * 3600 * 1000000"

definition seconds_of :: "int \<Rightarrow> int" where
  \<comment> \<open>\<open>(t - t.min.replace(tzinfo=t.tzinfo)).seconds\<close>: the whole seconds of the difference
      after its days are taken out, so the whole seconds since midnight of \<open>t\<close>'s day\<close>
  "seconds_of t = (t div 1000000) mod 86400"

definition round_up :: "nat \<Rightarrow> int \<Rightarrow> int" where
  \<comment> \<open>the three arithmetic lines shared by the rounding methods, for \<open>round_to \<noteq> 0\<close>\<close>
  "round_up round_to t =
     (let seconds = seconds_of t;
          rounding = (seconds + int round_to) div int round_to * int round_to
      in t + (rounding - seconds) * 1000000)"

definition round_date :: "config \<Rightarrow> int option \<Rightarrow> error + int" where
  \<comment> \<open>\<open>seconds\<close> is computed before the division: a date that is \<open>None\<close> fails first\<close>
  "round_date cfg d =
     (case d of
        None \<Rightarrow> Inl AttributeError
      | Some t \<Rightarrow>
          if REVIEW_ROUNDING_TIME cfg = 0 then Inl ZeroDivisionError
          else Inr (round_up (REVIEW_ROUNDING_TIME cfg) t))"

definition round_next_review_date :: "config \<Rightarrow> UserSpecific \<Rightarrow> error + UserSpecific" where
  "round_next_review_date cfg r =
     (case round_date cfg (next_review_date r) of
        Inl e \<Rightarrow> Inl e
      | Inr t \<Rightarrow> Inr (r\<lparr>next_review_date := Some t\<rparr>))"

definition round_last_studied_date :: "config \<Rightarrow> UserSpecific \<Rightarrow> error + UserSpecific" where
  "round_last_studied_date cfg r =
     (case round_date cfg (last_studied r) of
        Inl e \<Rightarrow> Inl e
      | Inr t \<Rightarrow> Inr (r\<lparr>last_studied := Some t\<rparr>))"

definition round_last_studied_up :: "config \<Rightarrow> UserSpecific \<Rightarrow> error + UserSpecific" where
  \<comment> \<open>the same arithmetic as \<open>round_last_studied_date\<close>, and a debug log line\<close>
  "round_last_studied_up cfg r =
     (case round_date cfg (last_studied r) of
        Inl e \<Rightarrow> Inl e
      | Inr t \<Rightarrow> Inr (r\<lparr>last_studied := Some t\<rparr>))"

definition round_review_time_up :: "config \<Rightarrow> UserSpecific \<Rightarrow> error + UserSpecific" where
  "round_review_time_up cfg r =
     (case round_next_review_date cfg r of
        Inl e \<Rightarrow> Inl e
      | Inr r1 \<Rightarrow> round_last_studied_date cfg r1)"

definition round_times :: "config \<Rightarrow> UserSpecific \<Rightarrow> error + UserSpecific" where
  "round_times cfg r =
     (if SRS_TIMES cfg (streak r) \<noteq> None then
        (case round_review_time_up cfg r of
           Inl e \<Rightarrow> Inl e
         | Inr r1 \<Rightarrow> round_last_studied_up cfg r1)
      else Inr r)"

subsection \<open>Criticality\<close>

definition can_be_critical :: "config \<Rightarrow> UserSpecific \<Rightarrow> bool" where
  "can_be_critical cfg r =
     (correct r + incorrect r \<ge> MINIMUM_ATTEMPT_COUNT_FOR_CRITICALITY cfg)"

definition breaks_threshold :: "config \<Rightarrow> UserSpecific \<Rightarrow> error + bool" where
  "breaks_threshold cfg r =
     (if correct r + incorrect r = 0 then Inl ZeroDivisionError
      else Inr (rat_of_nat (incorrect r) / rat_of_nat (correct r + incorrect r)
                  \<ge> CRITICALITY_THRESHOLD cfg))"

definition is_critical :: "config \<Rightarrow> UserSpecific \<Rightarrow> error + bool" where
  \<comment> \<open>\<open>and\<close> evaluates its right operand only when the left one is true\<close>
  "is_critical cfg r =
     (if can_be_critical cfg r then
        (case breaks_threshold cfg r of
           Inl e \<Rightarrow> Inl e
         | Inr b \<Rightarrow> if b then Inr True else Inr False)
      else Inr False)"

definition set_criticality :: "config \<Rightarrow> UserSpecific \<Rightarrow> error + UserSpecific" where
  "set_criticality cfg r =
     (case is_critical cfg r of
        Inl e \<Rightarrow> Inl e
      | Inr b \<Rightarrow> if b then Inr (r\<lparr>critical := True\<rparr>) else Inr (r\<lparr>critical := False\<rparr>))"

subsection \<open>Scheduling and grading\<close>

definition set_next_review_time :: "config \<Rightarrow> int \<Rightarrow> UserSpecific \<Rightarrow> error + UserSpecific" where
  "set_next_review_time cfg now r =
     (case SRS_TIMES cfg (streak r) of
        None \<Rightarrow> Inr (r\<lparr>next_review_date := None\<rparr>)
      | Some h \<Rightarrow> round_next_review_date cfg (r\<lparr>next_review_date := Some (now + hours h)\<rparr>))"

definition set_next_review_time_based_on_last_studied ::
  "config \<Rightarrow> UserSpecific \<Rightarrow> error + UserSpecific" where
  \<comment> \<open>the table is indexed without a test (\<open>KeyError\<close>), before the sum is taken
      (\<open>TypeError\<close> on \<open>None\<close>)\<close>
  "set_next_review_time_based_on_last_studied cfg r =
     (case SRS_TIMES cfg (streak r) of
        None \<Rightarrow> Inl KeyError
      | Some h \<Rightarrow>
          (case last_studied r of
             None \<Rightarrow> Inl TypeError
           | Some ls \<Rightarrow> round_review_time_up cfg (r\<lparr>next_review_date := Some (ls + hours h)\<rparr>)))"

definition answered_correctly ::
  "config \<Rightarrow> int \<Rightarrow> int \<Rightarrow> bool \<Rightarrow> UserSpecific \<Rightarrow> error + UserSpecific" where
  \<comment> \<open>\<open>now1\<close> is the clock read for \<open>last_studied\<close>, \<open>now2\<close> the one read by
      \<open>set_next_review_time\<close>\<close>
  "answered_correctly cfg now1 now2 first_try r =
     (let r1 =
            (if streak r = 0 then r\<lparr>streak := streak r + 1\<rparr>
             else if first_try then
               (let ra = r\<lparr>correct := correct r + 1\<rparr>;
                    rb = ra\<lparr>streak := streak ra + 1\<rparr>
                in if streak rb \<ge> BURNED_STREAK cfg then rb\<lparr>burned := True\<rparr> else rb)
             else r);
          r2 = r1\<lparr>needs_review := False\<rparr>;
          r3 = r2\<lparr>last_studied := Some now1\<rparr>
      in case set_next_review_time cfg now2 r3 of
           Inl e \<Rightarrow> Inl e
         | Inr r4 \<Rightarrow> set_criticality cfg r4)"

definition answered_incorrectly :: "config \<Rightarrow> UserSpecific \<Rightarrow> error + UserSpecific" where
  "answered_incorrectly cfg r =
     (let r1 = r\<lparr>incorrect := incorrect r + 1\<rparr>;
          r2 =
            (if streak r1 = 7 then r1\<lparr>streak := streak r1 - 2\<rparr>
             else if streak r1 > 1 then r1\<lparr>streak := streak r1 - 1\<rparr>
             else r1);
          r3 = r2\<lparr>streak := max 0 (streak r2)\<rparr>
      in set_criticality cfg r3)"

definition bring_review_out_of_vacation ::
  "config \<Rightarrow> int \<Rightarrow> UserSpecific \<Rightarrow> error + UserSpecific" where
  "bring_review_out_of_vacation cfg vacation_duration r =
     (case last_studied r of
        None \<Rightarrow> Inl TypeError
      | Some ls \<Rightarrow>
          (let r1 = r\<lparr>last_studied := Some (ls + vacation_duration)\<rparr>
           in case SRS_TIMES cfg (streak r1) of
                Some h \<Rightarrow>
                  round_times cfg
                    (r1\<lparr>next_review_date := Some (ls + vacation_duration + hours h)\<rparr>)
              | None \<Rightarrow> Inr (r1\<lparr>next_review_date := None\<rparr>)))"

definition reset :: "int \<Rightarrow> UserSpecific \<Rightarrow> UserSpecific" where
  "reset now r =
     r\<lparr>streak := 1, last_studied := None, next_review_date := Some now,
       correct := 1, incorrect := 0, burned := False, needs_review := True\<rparr>"


subsection \<open>Conditions used in the statements\<close>

definition critical_condition :: "config \<Rightarrow> nat \<Rightarrow> nat \<Rightarrow> bool" where
  \<comment> \<open>the criticality condition on a pair of counters \<open>correct\<close>, \<open>incorrect\<close>, written
      without the short circuit and the exception of \<open>is_critical\<close>\<close>
  "critical_condition cfg c i =
     (c + i \<ge> MINIMUM_ATTEMPT_COUNT_FOR_CRITICALITY cfg
      \<and> rat_of_nat i / rat_of_nat (c + i) \<ge> CRITICALITY_THRESHOLD cfg)"

text \<open>
  The records the operations can produce. A record that is not burned is a starting point.
  The grading operations and \<open>reset\<close> apply to every record, as in the methods, which
  never read \<open>burned\<close>; \<open>bring_review_out_of_vacation\<close> applies to records that are not
  burned.
\<close>

inductive reachable :: "config \<Rightarrow> UserSpecific \<Rightarrow> bool" for cfg :: config where
  start: "\<not> burned r \<Longrightarrow> reachable cfg r"
| correct_answer:
    "reachable cfg r \<Longrightarrow>
     answered_correctly cfg now1 now2 first_try r = Inr r' \<Longrightarrow> reachable cfg r'"
| incorrect_answer:
    "reachable cfg r \<Longrightarrow> answered_incorrectly cfg r = Inr r' \<Longrightarrow> reachable cfg r'"
| reset_review:
    "reachable cfg r \<Longrightarrow> reachable cfg (reset now r)"
| out_of_vacation:
    "reachable cfg r \<Longrightarrow> \<not> burned r \<Longrightarrow>
     bring_review_out_of_vacation cfg d r = Inr r' \<Longrightarrow> reachable cfg r'"

text \<open>
  The same with a caller that tests \<open>burned\<close> before \<open>answered_correctly\<close> and skips a
  burned record: the one difference is the premise of the rule \<open>correct_answer\<close>.
\<close>

inductive reachable_checked :: "config \<Rightarrow> UserSpecific \<Rightarrow> bool" for cfg :: config where
  start: "\<not> burned r \<Longrightarrow> reachable_checked cfg r"
| correct_answer:
    "reachable_checked cfg r \<Longrightarrow> \<not> burned r \<Longrightarrow>
     answered_correctly cfg now1 now2 first_try r = Inr r' \<Longrightarrow> reachable_checked cfg r'"
| incorrect_answer:
    "reachable_checked cfg r \<Longrightarrow> answered_incorrectly cfg r = Inr r' \<Longrightarrow>
     reachable_checked cfg r'"
| reset_review:
    "reachable_checked cfg r \<Longrightarrow> reachable_checked cfg (reset now r)"
| out_of_vacation:
    "reachable_checked cfg r \<Longrightarrow> \<not> burned r \<Longrightarrow>
     bring_review_out_of_vacation cfg d r = Inr r' \<Longrightarrow> reachable_checked cfg r'"

subsection \<open>A concrete configuration and concrete records\<close>

definition example_config :: config where
  \<comment> \<open>a configuration of the shape the methods expect: seven timed stages, burning at
      streak 8, hourly rounding. It serves concrete evaluations only.\<close>
  "example_config =
     \<lparr>SRS_TIMES = map_of [(1, 4), (2, 8), (3, 24), (4, 72), (5, 168), (6, 336), (7, 720)],
      BURNED_STREAK = 8,
      MINIMUM_ATTEMPT_COUNT_FOR_CRITICALITY = 5,
      CRITICALITY_THRESHOLD = 4 / 5,
      REVIEW_ROUNDING_TIME = 3600\<rparr>"

definition new_review :: UserSpecific where
  \<comment> \<open>the field defaults of the model class, created at time 0: a lesson\<close>
  "new_review =
     \<lparr>correct = 0, incorrect = 0, streak = 0, last_studied = None, needs_review = True,
      unlock_date = 0, next_review_date = Some 0, burned = False, hidden = False,
      critical = False\<rparr>"

definition studied_review :: UserSpecific where
  \<comment> \<open>a review of streak 1 after one correct answer at 13:07:42.123456 of day 0: due eight
      hours later, rounded up to 22:00:00.123456\<close>
  "studied_review =
     \<lparr>correct = 1, incorrect = 0, streak = 2, last_studied = Some 47262123456,
      needs_review = False, unlock_date = 0, next_review_date = Some 79200123456,
      burned = False, hidden = False, critical = False\<rparr>"

definition burned_review :: UserSpecific where
  \<comment> \<open>a review of streak 7 after one more correct answer at the same time\<close>
  "burned_review =
     \<lparr>correct = 7, incorrect = 0, streak = 8, last_studied = Some 47262123456,
      needs_review = False, unlock_date = 0, next_review_date = None,
      burned = True, hidden = False, critical = False\<rparr>"

definition struggling_review :: UserSpecific where
  \<comment> \<open>one correct answer in nine attempts\<close>
  "struggling_review =
     \<lparr>correct = 1, incorrect = 8, streak = 3, last_studied = Some 0,
      needs_review = True, unlock_date = 0, next_review_date = Some 0,
      burned = False, hidden = False, critical = True\<rparr>"

lemmas example_defs =
  example_config_def new_review_def studied_review_def burned_review_def struggling_review_def

lemmas method_defs =
  answered_correctly_def answered_incorrectly_def bring_review_out_of_vacation_def reset_def
  set_next_review_time_def set_next_review_time_based_on_last_studied_def
  set_criticality_def is_critical_def can_be_critical_def
  breaks_threshold_def round_times_def round_review_time_up_def round_last_studied_up_def
  round_last_studied_date_def round_next_review_date_def round_date_def round_up_def
  seconds_of_def hours_def Let_def

section \<open>Rounding\<close>

lemma seconds_of_round_up:
  "seconds_of (round_up g t) = ((seconds_of t + int g) div int g * int g) mod 86400"
proof -
  define s where "s = seconds_of t"
  define R where "R = (s + int g) div int g * int g"
  have "round_up g t = t + (R - s) * 1000000"
    by (simp add: round_up_def Let_def s_def R_def)
  then have "round_up g t div 1000000 = t div 1000000 + (R - s)"
    by simp
  moreover have "t div 1000000 = 86400 * (t div 1000000 div 86400) + s"
    by (simp add: s_def seconds_of_def)
  ultimately have "round_up g t div 1000000 = R + 86400 * (t div 1000000 div 86400)"
    by linarith
  then have "seconds_of (round_up g t) = R mod 86400"
    by (simp add: seconds_of_def)
  then show ?thesis by (simp add: R_def s_def)
qed

lemma round_up_boundary:
  assumes "int g dvd 86400"
  shows "seconds_of (round_up g t) mod int g = 0"
proof -
  have "seconds_of (round_up g t) mod int g
      = ((seconds_of t + int g) div int g * int g) mod int g"
    using assms by (simp add: seconds_of_round_up mod_mod_cancel)
  then show ?thesis by simp
qed

lemma round_up_delta:
  assumes "0 < g"
  shows "t < round_up g t" and "round_up g t \<le> t + int g * 1000000"
proof -
  define s where "s = seconds_of t"
  define R where "R = (s + int g) div int g * int g"
  have g: "0 < int g" using assms by simp
  have eq: "round_up g t = t + (R - s) * 1000000"
    by (simp add: round_up_def Let_def s_def R_def)
  have "R + s mod int g = s + int g"
    unfolding R_def using div_mult_mod_eq [of "s + int g" "int g"] by simp
  moreover have "0 \<le> s mod int g" "s mod int g < int g"
    using g by simp_all
  ultimately have "s < R" "R \<le> s + int g" by linarith+
  then show "t < round_up g t" and "round_up g t \<le> t + int g * 1000000"
    by (simp_all add: eq)
qed

lemma round_up_twice:
  assumes "0 < g"
  shows "t < round_up g (round_up g t)"
    and "round_up g (round_up g t) \<le> t + 2 * int g * 1000000"
  using round_up_delta [OF assms, of t] round_up_delta [OF assms, of "round_up g t"]
  by linarith+

text \<open>The rounding adds whole seconds: the microseconds of a timestamp stay as they are.\<close>

lemma round_up_microseconds: "round_up g t mod 1000000 = t mod 1000000"
proof -
  define k where "k = (seconds_of t + int g) div int g * int g - seconds_of t"
  have "round_up g t = t + k * 1000000"
    by (simp add: round_up_def Let_def k_def)
  then show ?thesis by simp
qed

lemma hours_microseconds: "(now + hours N) mod 1000000 = now mod 1000000"
proof -
  have "hours N = (3600 * int N) * 1000000" by (simp add: hours_def)
  then show ?thesis by (simp only: mod_mult_self1)
qed

text \<open>
  The time of day of a rounded timestamp, in microseconds: a multiple of the granularity
  plus the microseconds the timestamp had.
\<close>

lemma round_up_time_of_day:
  assumes "0 < g" and "int g dvd 86400"
  shows "(round_up g t mod 86400000000) mod (int g * 1000000) = t mod 1000000"
proof -
  define t' where "t' = round_up g t"
  have split: "t' mod (1000000 * 86400) = 1000000 * (t' div 1000000 mod 86400) + t' mod 1000000"
    by (rule zmod_zmult2_eq) simp
  have sec: "t' div 1000000 mod 86400 = seconds_of t'"
    by (simp add: seconds_of_def)
  have "seconds_of t' mod int g = 0"
    using assms(2) by (simp add: t'_def round_up_boundary)
  then obtain k where k: "seconds_of t' = int g * k"
    by (auto simp add: mod_eq_0_iff_dvd)
  have micro: "t' mod 1000000 = t mod 1000000"
    by (simp add: t'_def round_up_microseconds)
  have "t' mod 86400000000 = (int g * 1000000) * k + t mod 1000000"
    using split sec k micro by simp
  then have "(t' mod 86400000000) mod (int g * 1000000)
               = (t mod 1000000) mod (int g * 1000000)"
    by simp
  also have "\<dots> = t mod 1000000"
  proof (rule mod_pos_pos_trivial)
    show "0 \<le> t mod 1000000" by simp
    have "t mod 1000000 < 1000000" by simp
    moreover have "(1000000 :: int) \<le> int g * 1000000" using assms(1) by simp
    ultimately show "t mod 1000000 < int g * 1000000" by linarith
  qed
  finally show ?thesis by (simp add: t'_def)
qed

lemma round_up_twice_time_of_day:
  assumes "0 < g" and "int g dvd 86400"
  shows "(round_up g (round_up g t) mod 86400000000) mod (int g * 1000000) = t mod 1000000"
  using round_up_time_of_day [OF assms, of "round_up g t"] round_up_time_of_day [OF assms, of t]
  by (simp add: round_up_microseconds)

text \<open>
  A granularity that does not divide the day misses its boundary when the rounding passes
  midnight: with seven hours, 22:13:20 goes to 04:00:00 of the next day.
\<close>

lemma round_up_seven_hours:
  "round_up 25200 80000000000 = 100800000000 \<and> seconds_of 100800000000 = 14400
   \<and> (14400 :: int) mod 25200 \<noteq> 0"
  by (simp add: round_up_def seconds_of_def)

section \<open>What the methods return\<close>

lemma set_next_review_time_Some:
  assumes "0 < REVIEW_ROUNDING_TIME cfg" and "SRS_TIMES cfg (streak r) = Some h"
  shows "set_next_review_time cfg now r =
           Inr (r\<lparr>next_review_date := Some (round_up (REVIEW_ROUNDING_TIME cfg) (now + hours h))\<rparr>)"
  using assms by (simp add: set_next_review_time_def round_next_review_date_def round_date_def)

lemma set_next_review_time_None:
  assumes "SRS_TIMES cfg (streak r) = None"
  shows "set_next_review_time cfg now r = Inr (r\<lparr>next_review_date := None\<rparr>)"
  using assms by (simp add: set_next_review_time_def)

lemma set_next_review_time_returns:
  assumes "0 < REVIEW_ROUNDING_TIME cfg"
  shows "\<exists>r'. set_next_review_time cfg now r = Inr r'"
  using assms
  by (cases "SRS_TIMES cfg (streak r)")
     (simp_all add: set_next_review_time_Some set_next_review_time_None)

lemma set_criticality_returns:
  assumes "0 < correct r + incorrect r \<or> 0 < MINIMUM_ATTEMPT_COUNT_FOR_CRITICALITY cfg"
  shows "set_criticality cfg r =
           Inr (r\<lparr>critical := critical_condition cfg (correct r) (incorrect r)\<rparr>)"
  using assms
  by (auto simp add: set_criticality_def is_critical_def can_be_critical_def breaks_threshold_def
       critical_condition_def)

lemma set_criticality_Inr:
  assumes "set_criticality cfg r = Inr r'"
  shows "r' = r\<lparr>critical := critical_condition cfg (correct r) (incorrect r)\<rparr>"
  using assms
  by (auto simp add: set_criticality_def is_critical_def can_be_critical_def breaks_threshold_def
      critical_condition_def split: if_splits)

text \<open>The one exception of the criticality check: no attempt and a minimum of zero.\<close>

lemma set_criticality_raises:
  assumes "correct r + incorrect r = 0" and "MINIMUM_ATTEMPT_COUNT_FOR_CRITICALITY cfg = 0"
  shows "set_criticality cfg r = Inl ZeroDivisionError"
  using assms
  by (simp add: set_criticality_def is_critical_def can_be_critical_def breaks_threshold_def)

lemma answered_incorrectly_eq:
  "answered_incorrectly cfg r =
     Inr (r\<lparr>incorrect := incorrect r + 1,
            streak := (if streak r = 7 then 5 else if 1 < streak r then streak r - 1 else streak r),
            critical := critical_condition cfg (correct r) (incorrect r + 1)\<rparr>)"
  by (simp add: answered_incorrectly_def Let_def set_criticality_returns)

lemma answered_correctly_Inr:
  assumes "answered_correctly cfg now1 now2 first_try r = Inr r'"
  shows "streak r' = (if streak r = 0 then 1 else if first_try then streak r + 1 else streak r)"
    and "correct r' = (if streak r \<noteq> 0 \<and> first_try then correct r + 1 else correct r)"
    and "incorrect r' = incorrect r"
    and "burned r' = (burned r \<or> streak r \<noteq> 0 \<and> first_try \<and> BURNED_STREAK cfg \<le> streak r + 1)"
    and "needs_review r' = False"
    and "last_studied r' = Some now1"
    and "next_review_date r' =
           (case SRS_TIMES cfg (streak r') of
              None \<Rightarrow> None
            | Some h \<Rightarrow> Some (round_up (REVIEW_ROUNDING_TIME cfg) (now2 + hours h)))"
    and "critical r' = critical_condition cfg (correct r') (incorrect r')"
  using assms
  by (auto simp add: answered_correctly_def Let_def set_next_review_time_def
      round_next_review_date_def round_date_def
      dest!: set_criticality_Inr split: if_splits option.splits sum.splits)

lemma answered_correctly_returns:
  assumes "0 < REVIEW_ROUNDING_TIME cfg" and "0 < MINIMUM_ATTEMPT_COUNT_FOR_CRITICALITY cfg"
  shows "\<exists>r'. answered_correctly cfg now1 now2 first_try r = Inr r'"
proof -
  define r3 where "r3 =
     (if streak r = 0 then r\<lparr>streak := streak r + 1\<rparr>
      else if first_try then
        (let ra = r\<lparr>correct := correct r + 1\<rparr>;
             rb = ra\<lparr>streak := streak ra + 1\<rparr>
         in if streak rb \<ge> BURNED_STREAK cfg then rb\<lparr>burned := True\<rparr> else rb)
      else r)\<lparr>needs_review := False\<rparr>\<lparr>last_studied := Some now1\<rparr>"
  obtain r4 where r4: "set_next_review_time cfg now2 r3 = Inr r4"
    using set_next_review_time_returns [OF assms(1)] by blast
  have "answered_correctly cfg now1 now2 first_try r = set_criticality cfg r4"
    using r4 by (simp add: answered_correctly_def Let_def r3_def)
  then show ?thesis
    using assms(2) by (simp add: set_criticality_returns)
qed

lemma bring_review_out_of_vacation_Some:
  assumes "0 < REVIEW_ROUNDING_TIME cfg" and "last_studied r = Some ls"
    and "SRS_TIMES cfg (streak r) = Some h"
  shows "bring_review_out_of_vacation cfg d r =
           Inr (r\<lparr>last_studied :=
                    Some (round_up (REVIEW_ROUNDING_TIME cfg)
                           (round_up (REVIEW_ROUNDING_TIME cfg) (ls + d))),
                  next_review_date :=
                    Some (round_up (REVIEW_ROUNDING_TIME cfg) (ls + d + hours h))\<rparr>)"
  using assms
  by (simp add: bring_review_out_of_vacation_def round_times_def round_review_time_up_def
      round_last_studied_up_def round_last_studied_date_def round_next_review_date_def
      round_date_def)

lemma bring_review_out_of_vacation_None:
  assumes "last_studied r = Some ls" and "SRS_TIMES cfg (streak r) = None"
  shows "bring_review_out_of_vacation cfg d r =
           Inr (r\<lparr>last_studied := Some (ls + d), next_review_date := None\<rparr>)"
  using assms by (simp add: bring_review_out_of_vacation_def)

lemma bring_review_out_of_vacation_Inr:
  assumes "bring_review_out_of_vacation cfg d r = Inr r'"
  shows "correct r' = correct r" and "incorrect r' = incorrect r" and "burned r' = burned r"
    and "streak r' = streak r" and "needs_review r' = needs_review r"
  using assms
  by (auto simp add: bring_review_out_of_vacation_def round_times_def round_review_time_up_def
      round_last_studied_up_def round_last_studied_date_def round_next_review_date_def
      round_date_def Let_def split: option.splits if_splits)

text \<open>A record without \<open>last_studied\<close> cannot leave vacation: the sum raises.\<close>

lemma bring_review_out_of_vacation_raises:
  assumes "last_studied r = None"
  shows "bring_review_out_of_vacation cfg d r = Inl TypeError"
  using assms by (simp add: bring_review_out_of_vacation_def)

section \<open>The concrete records\<close>

lemma studied_review_reached:
  "answered_correctly example_config 47262123456 47262123456 True (new_review\<lparr>streak := 1\<rparr>)
     = Inr studied_review"
  by (simp add: example_defs method_defs)

lemma burned_review_reached:
  "answered_correctly example_config 47262123456 47262123456 True
     (new_review\<lparr>streak := 7, correct := 6\<rparr>) = Inr burned_review"
  by (simp add: example_defs method_defs)

lemma example_table_ends:
  "\<forall>s. BURNED_STREAK example_config \<le> s \<longrightarrow> SRS_TIMES example_config s = None"
  by (auto simp add: example_config_def)

lemma burned_review_reachable: "reachable_checked example_config burned_review"
proof -
  have "reachable_checked example_config (new_review\<lparr>streak := 7, correct := 6\<rparr>)"
    by (rule reachable_checked.start) (simp add: new_review_def)
  moreover have "\<not> burned (new_review\<lparr>streak := 7, correct := 6\<rparr>)"
    by (simp add: new_review_def)
  ultimately show ?thesis
    using burned_review_reached by (rule reachable_checked.correct_answer)
qed

lemma studied_review_two_clocks:
  "answered_correctly example_config 47262123456 47262123457 True (new_review\<lparr>streak := 1\<rparr>)
     = Inr (studied_review\<lparr>next_review_date := Some 79200123457\<rparr>)"
  by (simp add: example_defs method_defs)

section \<open>The burned invariant\<close>

lemma rescheduled_reachable:
  "reachable example_config
     (burned_review\<lparr>incorrect := 1, streak := 7, last_studied := Some 50000000000,
        next_review_date := Some 2642400000000\<rparr>)"
proof -
  have a: "reachable example_config (new_review\<lparr>streak := 7, correct := 6\<rparr>)"
    by (rule reachable.start) (simp add: new_review_def)
  have b: "reachable example_config burned_review"
    using a burned_review_reached by (rule reachable.correct_answer)
  have "answered_incorrectly example_config burned_review
          = Inr (burned_review\<lparr>incorrect := 1, streak := 7\<rparr>)"
    by (simp add: example_defs method_defs)
  with b have c: "reachable example_config (burned_review\<lparr>incorrect := 1, streak := 7\<rparr>)"
    by (rule reachable.incorrect_answer)
  have "answered_correctly example_config 50000000000 50000000000 False
          (burned_review\<lparr>incorrect := 1, streak := 7\<rparr>)
        = Inr (burned_review\<lparr>incorrect := 1, streak := 7, last_studied := Some 50000000000,
              next_review_date := Some 2642400000000\<rparr>)"
    by (simp add: example_defs method_defs)
  with c show ?thesis by (rule reachable.correct_answer)
qed

text \<open>
  Claim C1, as stated, fails: \<open>answered_correctly\<close> has no test of \<open>burned\<close>. Three calls
  from a record that is not burned (streak 7, in a configuration whose table ends before
  the burn threshold 8) give a burned record with a scheduled review: a correct answer
  burns the record at streak 8, an incorrect answer lowers the streak to 7 and leaves
  \<open>burned\<close> true, and a correct answer that is not a first try schedules the interval of
  streak 7.
\<close>

theorem burned_invariant_counterexample:
  "\<not> burned (new_review\<lparr>streak := 7, correct := 6\<rparr>)
   \<and> answered_correctly example_config 47262123456 47262123456 True
        (new_review\<lparr>streak := 7, correct := 6\<rparr>) = Inr burned_review
   \<and> answered_incorrectly example_config burned_review
       = Inr (burned_review\<lparr>incorrect := 1, streak := 7\<rparr>)
   \<and> answered_correctly example_config 50000000000 50000000000 False
        (burned_review\<lparr>incorrect := 1, streak := 7\<rparr>)
       = Inr (burned_review\<lparr>incorrect := 1, streak := 7, last_studied := Some 50000000000,
                next_review_date := Some 2642400000000\<rparr>)
   \<and> reachable example_config
        (burned_review\<lparr>incorrect := 1, streak := 7, last_studied := Some 50000000000,
           next_review_date := Some 2642400000000\<rparr>)
   \<and> burned (burned_review\<lparr>incorrect := 1, streak := 7, last_studied := Some 50000000000,
           next_review_date := Some 2642400000000\<rparr>)
   \<and> next_review_date
        (burned_review\<lparr>incorrect := 1, streak := 7, last_studied := Some 50000000000,
           next_review_date := Some 2642400000000\<rparr>) \<noteq> None"
  using rescheduled_reachable by (simp add: example_defs method_defs)

lemma burn_step:
  assumes table: "\<forall>s. BURNED_STREAK cfg \<le> s \<longrightarrow> SRS_TIMES cfg s = None"
    and "\<not> burned r" and "answered_correctly cfg now1 now2 first_try r = Inr r'"
    and "burned r'"
  shows "next_review_date r' = None \<and> \<not> needs_review r'"
proof -
  note facts = answered_correctly_Inr [OF assms(3)]
  from facts(4) assms(2,4) have "streak r \<noteq> 0" "first_try" "BURNED_STREAK cfg \<le> streak r + 1"
    by simp_all
  with facts(1) have "BURNED_STREAK cfg \<le> streak r'" by simp
  with table have "SRS_TIMES cfg (streak r') = None" by blast
  with facts(7) facts(5) show ?thesis by simp
qed

lemma reachable_checked_burned:
  assumes table: "\<forall>s. BURNED_STREAK cfg \<le> s \<longrightarrow> SRS_TIMES cfg s = None"
    and "reachable_checked cfg r"
  shows "burned r \<longrightarrow> next_review_date r = None \<and> \<not> needs_review r"
  using assms(2)
proof (induction rule: reachable_checked.induct)
  case (start r)
  then show ?case by simp
next
  case (correct_answer r now1 now2 first_try r')
  then show ?case using burn_step [OF table] by blast
next
  case (incorrect_answer r r')
  then show ?case by (simp add: answered_incorrectly_eq) auto
next
  case (reset_review r now)
  then show ?case by (simp add: reset_def)
next
  case (out_of_vacation r d r')
  then show ?case using bring_review_out_of_vacation_Inr(3) by blast
qed

text \<open>A record reachable with the test is reachable without it.\<close>

lemma reachable_checked_reachable:
  assumes "reachable_checked cfg r"
  shows "reachable cfg r"
  using assms
proof (induction rule: reachable_checked.induct)
  case (start r)
  then show ?case by (rule reachable.start)
next
  case (correct_answer r now1 now2 first_try r')
  then show ?case using reachable.correct_answer by blast
next
  case (incorrect_answer r r')
  then show ?case using reachable.incorrect_answer by blast
next
  case (reset_review r now)
  then show ?case using reachable.reset_review by blast
next
  case (out_of_vacation r d r')
  then show ?case using reachable.out_of_vacation by blast
qed

text \<open>
  Claim C1, amended. In a configuration whose interval table has no entry from the burn
  threshold on, every record reachable through the operations, with \<open>answered_correctly\<close>
  and \<open>bring_review_out_of_vacation\<close> applied to records that are not burned
  (\<open>answered_incorrectly\<close> and \<open>reset\<close> to any record), satisfies: if \<open>burned\<close> is true then
  \<open>next_review_date\<close> is \<open>None\<close> and \<open>needs_review\<close> is false. In particular, when
  \<open>answered_correctly\<close> with \<open>first_try\<close> true takes a streak other than 0 to the burn
  threshold or beyond, the call returns a record that is burned, has no scheduled review
  and has \<open>needs_review\<close> false.
\<close>

theorem burned_invariant:
  assumes "\<forall>s. BURNED_STREAK cfg \<le> s \<longrightarrow> SRS_TIMES cfg s = None"
  shows "(reachable_checked cfg r \<longrightarrow> burned r \<longrightarrow>
            next_review_date r = None \<and> \<not> needs_review r)
       \<and> (streak r0 \<noteq> 0 \<longrightarrow> BURNED_STREAK cfg \<le> streak r0 + 1 \<longrightarrow>
            (\<exists>r'. answered_correctly cfg now1 now2 True r0 = Inr r'
                  \<and> burned r' \<and> next_review_date r' = None \<and> \<not> needs_review r'))"
proof (intro conjI impI)
  assume "reachable_checked cfg r" and "burned r"
  with reachable_checked_burned [OF assms] show "next_review_date r = None" by blast
next
  assume "reachable_checked cfg r" and "burned r"
  with reachable_checked_burned [OF assms] show "\<not> needs_review r" by blast
next
  assume s: "streak r0 \<noteq> 0" and b: "BURNED_STREAK cfg \<le> streak r0 + 1"
  define r3 where "r3 = r0\<lparr>correct := correct r0 + 1, streak := streak r0 + 1, burned := True,
      needs_review := False, last_studied := Some now1\<rparr>"
  have "SRS_TIMES cfg (streak r3) = None"
    using assms b by (simp add: r3_def)
  then have "set_next_review_time cfg now2 r3 = Inr (r3\<lparr>next_review_date := None\<rparr>)"
    by (rule set_next_review_time_None)
  then have "answered_correctly cfg now1 now2 True r0
               = set_criticality cfg (r3\<lparr>next_review_date := None\<rparr>)"
    using s b by (simp add: answered_correctly_def Let_def r3_def)
  moreover have "0 < correct (r3\<lparr>next_review_date := None\<rparr>)
                       + incorrect (r3\<lparr>next_review_date := None\<rparr>)"
    by (simp add: r3_def)
  ultimately have "answered_correctly cfg now1 now2 True r0
      = Inr (r3\<lparr>next_review_date := None,
                critical := critical_condition cfg (correct r0 + 1) (incorrect r0)\<rparr>)"
    by (simp add: set_criticality_returns r3_def)
  then show "\<exists>r'. answered_correctly cfg now1 now2 True r0 = Inr r'
                  \<and> burned r' \<and> next_review_date r' = None \<and> \<not> needs_review r'"
    by (simp add: r3_def)
qed

theorem burned_invariant_witness:
  "(\<forall>k. SRS_TIMES example_config (BURNED_STREAK example_config + k) = None)
   \<and> reachable_checked example_config burned_review \<and> burned burned_review
   \<and> next_review_date burned_review = None \<and> \<not> needs_review burned_review
   \<and> streak (new_review\<lparr>streak := 7, correct := 6\<rparr>) \<noteq> 0
   \<and> BURNED_STREAK example_config \<le> streak (new_review\<lparr>streak := 7, correct := 6\<rparr>) + 1
   \<and> (\<exists>r'. answered_correctly example_config 47262123456 47262123456 True
              (new_review\<lparr>streak := 7, correct := 6\<rparr>) = Inr r'
          \<and> burned r' \<and> next_review_date r' = None \<and> \<not> needs_review r')"
  using burned_invariant
          [OF example_table_ends, of burned_review "new_review\<lparr>streak := 7, correct := 6\<rparr>"
             47262123456 47262123456]
    example_table_ends burned_review_reachable
  by (simp add: burned_review_def new_review_def example_config_def)

section \<open>Incorrect answers\<close>

text \<open>
  Claim C2, as stated, fails: \<open>answered_incorrectly\<close> does not assign \<open>needs_review\<close>. On the
  record \<open>studied_review\<close>, whose \<open>needs_review\<close> is false, the flag is false after the call.
\<close>

theorem answered_incorrectly_needs_review_counterexample:
  "needs_review studied_review = False
   \<and> answered_incorrectly example_config studied_review
       = Inr (studied_review\<lparr>incorrect := 1, streak := 1\<rparr>)
   \<and> needs_review (studied_review\<lparr>incorrect := 1, streak := 1\<rparr>) = False"
  by (simp add: example_defs method_defs)

text \<open>
  Claim C2, amended. For every record, \<open>answered_incorrectly\<close> returns, and it leaves
  \<open>needs_review\<close>, \<open>next_review_date\<close> and \<open>last_studied\<close> as they were: a record that was
  due stays due, and no review time is computed.
\<close>

theorem answered_incorrectly_keeps_schedule:
  "\<exists>r'. answered_incorrectly cfg r = Inr r'
      \<and> needs_review r' = needs_review r
      \<and> next_review_date r' = next_review_date r
      \<and> last_studied r' = last_studied r"
  by (simp add: answered_incorrectly_eq)

text \<open>
  Claim C4, as stated, fails on a lesson: the clamp of the method is \<open>max(0, streak)\<close>, and
  a record of streak 0 has streak 0 after the call, below the minimum of 1.
\<close>

theorem answered_incorrectly_lesson_counterexample:
  "streak new_review = 0
   \<and> answered_incorrectly example_config new_review = Inr (new_review\<lparr>incorrect := 1\<rparr>)
   \<and> streak (new_review\<lparr>incorrect := 1\<rparr>) = 0
   \<and> \<not> 1 \<le> streak (new_review\<lparr>incorrect := 1\<rparr>)"
  by (simp add: example_defs method_defs)

text \<open>
  Claim C4, amended. The method tests the literal streak 7, which is the burn threshold
  minus one when the threshold is 8. With that threshold, for every record
  \<open>answered_incorrectly\<close> returns; the new streak is \<open>streak - 2\<close> if the streak is the
  threshold minus one, else \<open>streak - 1\<close> if the streak exceeds 1, else the streak
  unchanged; the new streak is at least 1 whenever the streak was at least 1 (a lesson,
  streak 0, stays at 0); and the streak never increases.
\<close>

theorem answered_incorrectly_streak:
  assumes "BURNED_STREAK cfg = 8"
  shows "\<exists>r'. answered_incorrectly cfg r = Inr r'
            \<and> streak r' = (if streak r = BURNED_STREAK cfg - 1 then streak r - 2
                            else if streak r > 1 then streak r - 1
                            else streak r)
            \<and> (1 \<le> streak r \<longrightarrow> 1 \<le> streak r')
            \<and> streak r' \<le> streak r"
  using assms by (auto simp add: answered_incorrectly_eq)

theorem answered_incorrectly_streak_witness:
  "BURNED_STREAK example_config = 8
   \<and> 1 \<le> streak (new_review\<lparr>streak := 7\<rparr>)
   \<and> (\<exists>r'. answered_incorrectly example_config (new_review\<lparr>streak := 7\<rparr>) = Inr r'
          \<and> streak r' = 5 \<and> 1 \<le> streak r' \<and> streak r' \<le> 7)"
  using answered_incorrectly_streak [of example_config "new_review\<lparr>streak := 7\<rparr>"]
  by (auto simp add: example_config_def new_review_def)

section \<open>Grading a burned record\<close>

text \<open>
  Claim C3, as stated, fails: the grading methods have no test of \<open>burned\<close>. On the burned
  record \<open>burned_review\<close>, \<open>answered_incorrectly\<close> counts the failure and lowers the streak,
  and \<open>answered_correctly\<close> stamps \<open>last_studied\<close>.
\<close>

theorem grading_burned_counterexample:
  "burned burned_review
   \<and> answered_incorrectly example_config burned_review
       = Inr (burned_review\<lparr>incorrect := 1, streak := 7\<rparr>)
   \<and> burned_review\<lparr>incorrect := 1, streak := 7\<rparr> \<noteq> burned_review
   \<and> answered_correctly example_config 50000000000 50000000000 False burned_review
       = Inr (burned_review\<lparr>last_studied := Some 50000000000\<rparr>)
   \<and> burned_review\<lparr>last_studied := Some 50000000000\<rparr> \<noteq> burned_review"
  by (simp add: example_defs method_defs)

text \<open>
  Claim C3, amended. For every record with \<open>burned\<close> true, grading raises no error on
  account of the flag and applies the transition of any other record, with \<open>burned\<close> still
  true afterwards: \<open>answered_incorrectly\<close> returns a record with \<open>incorrect\<close> one higher;
  \<open>answered_correctly\<close>, when it returns, has stamped \<open>last_studied\<close> with the current
  time, cleared \<open>needs_review\<close> and advanced \<open>correct\<close> and \<open>streak\<close> as it does for a
  record that is not burned.
\<close>

theorem grading_burned_record:
  assumes "burned r"
  shows "(\<exists>r'. answered_incorrectly cfg r = Inr r' \<and> burned r'
             \<and> incorrect r' = incorrect r + 1)
       \<and> (answered_correctly cfg now1 now2 first_try r = Inr r'' \<longrightarrow>
            burned r'' \<and> last_studied r'' = Some now1 \<and> \<not> needs_review r''
            \<and> correct r'' = (if streak r \<noteq> 0 \<and> first_try then correct r + 1 else correct r)
            \<and> streak r'' = (if streak r = 0 then 1
                             else if first_try then streak r + 1 else streak r))"
proof (intro conjI impI)
  show "\<exists>r'. answered_incorrectly cfg r = Inr r' \<and> burned r' \<and> incorrect r' = incorrect r + 1"
    using assms by (simp add: answered_incorrectly_eq)
next
  assume a: "answered_correctly cfg now1 now2 first_try r = Inr r''"
  note facts = answered_correctly_Inr [OF a]
  show "burned r''" using facts(4) assms by simp
  show "last_studied r'' = Some now1" by (rule facts(6))
  show "\<not> needs_review r''" using facts(5) by simp
  show "correct r'' = (if streak r \<noteq> 0 \<and> first_try then correct r + 1 else correct r)"
    by (rule facts(2))
  show "streak r'' = (if streak r = 0 then 1 else if first_try then streak r + 1 else streak r)"
    by (rule facts(1))
qed

theorem grading_burned_record_witness:
  "burned burned_review
   \<and> (\<exists>r'. answered_incorrectly example_config burned_review = Inr r' \<and> burned r'
           \<and> incorrect r' = incorrect burned_review + 1)
   \<and> answered_correctly example_config 50000000000 50000000000 False burned_review
       = Inr (burned_review\<lparr>last_studied := Some 50000000000\<rparr>)
   \<and> burned (burned_review\<lparr>last_studied := Some 50000000000\<rparr>)
   \<and> last_studied (burned_review\<lparr>last_studied := Some 50000000000\<rparr>) = Some 50000000000"
  using grading_burned_record [of burned_review example_config 50000000000 50000000000 False
              "burned_review\<lparr>last_studied := Some 50000000000\<rparr>"]
  by (simp add: example_defs method_defs)

section \<open>Correct answers\<close>

text \<open>
  Claim C5. For every record with streak 0 (a lesson) and either value of \<open>first_try\<close>,
  \<open>answered_correctly\<close> returns a record with streak 1 and \<open>correct\<close> unchanged, with
  \<open>needs_review\<close> false and \<open>last_studied\<close> the current time, and with \<open>next_review_date\<close>
  scheduled from the interval-table entry for streak 1: the clock plus that many hours,
  rounded up (and \<open>None\<close> if the table has no entry for 1). The configuration has a
  positive rounding granularity and a positive minimum attempt count.
\<close>

theorem lesson_answered_correctly:
  assumes "streak r = 0"
    and "0 < REVIEW_ROUNDING_TIME cfg"
    and "0 < MINIMUM_ATTEMPT_COUNT_FOR_CRITICALITY cfg"
  shows "\<exists>r'. answered_correctly cfg now1 now2 first_try r = Inr r'
            \<and> streak r' = 1 \<and> correct r' = correct r \<and> \<not> needs_review r'
            \<and> last_studied r' = Some now1
            \<and> next_review_date r' =
                (case SRS_TIMES cfg 1 of
                   None \<Rightarrow> None
                 | Some h \<Rightarrow> Some (round_up (REVIEW_ROUNDING_TIME cfg) (now2 + hours h)))"
proof -
  obtain r' where a: "answered_correctly cfg now1 now2 first_try r = Inr r'"
    using answered_correctly_returns [OF assms(2,3)] by blast
  note facts = answered_correctly_Inr [OF a]
  have s: "streak r' = 1" using facts(1) assms(1) by simp
  have c: "correct r' = correct r" using facts(2) assms(1) by simp
  have n: "\<not> needs_review r'" using facts(5) by simp
  have d: "next_review_date r' =
                (case SRS_TIMES cfg 1 of
                   None \<Rightarrow> None
                 | Some h \<Rightarrow> Some (round_up (REVIEW_ROUNDING_TIME cfg) (now2 + hours h)))"
    using facts(7) s by simp
  show ?thesis using a s c n facts(6) d by (intro exI [of _ r'] conjI)
qed

theorem lesson_answered_correctly_witness:
  "streak new_review = 0 \<and> 0 < REVIEW_ROUNDING_TIME example_config
   \<and> 0 < MINIMUM_ATTEMPT_COUNT_FOR_CRITICALITY example_config
   \<and> (\<exists>r'. answered_correctly example_config 47262123456 47262123457 False new_review = Inr r'
          \<and> streak r' = 1 \<and> correct r' = 0 \<and> \<not> needs_review r'
          \<and> last_studied r' = Some 47262123456
          \<and> next_review_date r' = Some 64800123457)"
  using lesson_answered_correctly [of new_review example_config 47262123456 47262123457 False]
  by (simp add: example_config_def new_review_def round_up_def seconds_of_def hours_def)

section \<open>Criticality\<close>

text \<open>
  Claim C6. After each grading operation the flag \<open>critical\<close> of the returned record is
  true if and only if \<open>correct + incorrect\<close> is at least the minimum attempt count and
  \<open>incorrect / (correct + incorrect)\<close> is at least the criticality threshold, the counters
  being those of the returned record; so a record with fewer attempts than the minimum is
  never critical. \<open>answered_incorrectly\<close> always returns; \<open>answered_correctly\<close> returns
  in every configuration with a positive rounding granularity and a positive minimum
  attempt count. The quotient is taken in the rationals.
\<close>

theorem criticality_after_grading:
  "(answered_correctly cfg now1 now2 first_try r = Inr r1 \<longrightarrow>
      (critical r1 \<longleftrightarrow>
         MINIMUM_ATTEMPT_COUNT_FOR_CRITICALITY cfg \<le> correct r1 + incorrect r1
         \<and> CRITICALITY_THRESHOLD cfg
             \<le> rat_of_nat (incorrect r1) / rat_of_nat (correct r1 + incorrect r1))
      \<and> (correct r1 + incorrect r1 < MINIMUM_ATTEMPT_COUNT_FOR_CRITICALITY cfg
           \<longrightarrow> \<not> critical r1))
   \<and> (\<exists>r2. answered_incorrectly cfg r = Inr r2
         \<and> (critical r2 \<longleftrightarrow>
               MINIMUM_ATTEMPT_COUNT_FOR_CRITICALITY cfg \<le> correct r2 + incorrect r2
               \<and> CRITICALITY_THRESHOLD cfg
                   \<le> rat_of_nat (incorrect r2) / rat_of_nat (correct r2 + incorrect r2))
         \<and> (correct r2 + incorrect r2 < MINIMUM_ATTEMPT_COUNT_FOR_CRITICALITY cfg
              \<longrightarrow> \<not> critical r2))
   \<and> (0 < REVIEW_ROUNDING_TIME cfg \<longrightarrow> 0 < MINIMUM_ATTEMPT_COUNT_FOR_CRITICALITY cfg \<longrightarrow>
        (\<exists>r'. answered_correctly cfg now1 now2 first_try r = Inr r'))"
proof (intro conjI impI)
  assume a: "answered_correctly cfg now1 now2 first_try r = Inr r1"
  have c: "critical r1 = critical_condition cfg (correct r1) (incorrect r1)"
    by (rule answered_correctly_Inr(8) [OF a])
  show "critical r1 \<longleftrightarrow>
         MINIMUM_ATTEMPT_COUNT_FOR_CRITICALITY cfg \<le> correct r1 + incorrect r1
         \<and> CRITICALITY_THRESHOLD cfg
             \<le> rat_of_nat (incorrect r1) / rat_of_nat (correct r1 + incorrect r1)"
    unfolding c critical_condition_def ..
  assume "correct r1 + incorrect r1 < MINIMUM_ATTEMPT_COUNT_FOR_CRITICALITY cfg"
  then show "\<not> critical r1"
    unfolding c critical_condition_def by simp
next
  define r2 where "r2 = r\<lparr>incorrect := incorrect r + 1,
            streak := (if streak r = 7 then 5 else if 1 < streak r then streak r - 1 else streak r),
            critical := critical_condition cfg (correct r) (incorrect r + 1)\<rparr>"
  have a: "answered_incorrectly cfg r = Inr r2"
    by (simp add: r2_def answered_incorrectly_eq)
  have c: "critical r2 = critical_condition cfg (correct r2) (incorrect r2)"
    by (simp add: r2_def)
  have iff: "critical r2 \<longleftrightarrow>
               MINIMUM_ATTEMPT_COUNT_FOR_CRITICALITY cfg \<le> correct r2 + incorrect r2
               \<and> CRITICALITY_THRESHOLD cfg
                   \<le> rat_of_nat (incorrect r2) / rat_of_nat (correct r2 + incorrect r2)"
    unfolding c critical_condition_def ..
  have few: "correct r2 + incorrect r2 < MINIMUM_ATTEMPT_COUNT_FOR_CRITICALITY cfg
              \<longrightarrow> \<not> critical r2"
    unfolding c critical_condition_def by simp
  show "\<exists>r2. answered_incorrectly cfg r = Inr r2
         \<and> (critical r2 \<longleftrightarrow>
               MINIMUM_ATTEMPT_COUNT_FOR_CRITICALITY cfg \<le> correct r2 + incorrect r2
               \<and> CRITICALITY_THRESHOLD cfg
                   \<le> rat_of_nat (incorrect r2) / rat_of_nat (correct r2 + incorrect r2))
         \<and> (correct r2 + incorrect r2 < MINIMUM_ATTEMPT_COUNT_FOR_CRITICALITY cfg
              \<longrightarrow> \<not> critical r2)"
    using a iff few by (intro exI [of _ r2] conjI)
next
  assume "0 < REVIEW_ROUNDING_TIME cfg" and "0 < MINIMUM_ATTEMPT_COUNT_FOR_CRITICALITY cfg"
  then show "\<exists>r'. answered_correctly cfg now1 now2 first_try r = Inr r'"
    by (rule answered_correctly_returns)
qed

theorem criticality_after_grading_witness:
  "answered_correctly example_config 47262123456 47262123456 True struggling_review
     = Inr (struggling_review\<lparr>correct := 2, streak := 4, needs_review := False,
              last_studied := Some 47262123456, next_review_date := Some 309600123456\<rparr>)
   \<and> critical (struggling_review\<lparr>correct := 2, streak := 4, needs_review := False,
              last_studied := Some 47262123456, next_review_date := Some 309600123456\<rparr>)
   \<and> (\<exists>r2. answered_incorrectly example_config struggling_review = Inr r2
          \<and> critical r2 \<and> correct r2 + incorrect r2 = 10)
   \<and> 0 < REVIEW_ROUNDING_TIME example_config
   \<and> 0 < MINIMUM_ATTEMPT_COUNT_FOR_CRITICALITY example_config"
  using criticality_after_grading
      [of example_config 47262123456 47262123456 True struggling_review
       "struggling_review\<lparr>correct := 2, streak := 4, needs_review := False,
              last_studied := Some 47262123456, next_review_date := Some 309600123456\<rparr>"]
  by (auto simp add: example_config_def struggling_review_def method_defs)

text \<open>A record below the minimum attempt count: three failures in four attempts.\<close>

lemma few_attempts_not_critical:
  "answered_incorrectly example_config (new_review\<lparr>streak := 2, correct := 1, incorrect := 2\<rparr>)
     = Inr (new_review\<lparr>streak := 1, correct := 1, incorrect := 3\<rparr>)
   \<and> \<not> critical (new_review\<lparr>streak := 1, correct := 1, incorrect := 3\<rparr>)"
  by (simp add: example_defs method_defs)

section \<open>The scheduled time and the boundaries of the granularity\<close>

text \<open>
  Claim C7, as stated, fails. The rounding adds whole seconds and keeps the microseconds of
  the clock: a review of streak 1 scheduled at 13:07:42.123456 is due four hours later,
  rounded up to 18:00:00.123456, which is 123456 microseconds after the hour and so not
  on an hourly boundary. Besides, the boundaries are counted from the midnight before the
  unrounded timestamp: with a granularity of seven hours, which does not divide the day,
  a review scheduled at 18:13:20 is due at 04:00:00 of the next day, four hours after its
  own midnight.
\<close>

theorem lands_on_boundary_counterexample:
  "set_next_review_time example_config 47262123456 (new_review\<lparr>streak := 1\<rparr>)
     = Inr (new_review\<lparr>streak := 1, next_review_date := Some 64800123456\<rparr>)
   \<and> (64800123456 mod 86400000000) mod (3600 * 1000000) = (123456 :: int)
   \<and> (64800123456 mod 86400000000) mod (3600 * 1000000) \<noteq> (0 :: int)
   \<and> set_next_review_time (example_config\<lparr>REVIEW_ROUNDING_TIME := 25200\<rparr>) 65600000000
        (new_review\<lparr>streak := 1\<rparr>)
     = Inr (new_review\<lparr>streak := 1, next_review_date := Some 100800000000\<rparr>)
   \<and> (100800000000 mod 86400000000) mod (25200 * 1000000) = (14400000000 :: int)
   \<and> (100800000000 mod 86400000000) mod (25200 * 1000000) \<noteq> (0 :: int)"
  by (simp add: example_defs method_defs)

text \<open>
  Claim C7, amended. The granularity is a positive whole number of seconds that divides
  the 86400 seconds of a day. For every clock reading and every interval of \<open>N\<close> hours
  that the table gives for the record's streak, \<open>set_next_review_time\<close> returns, and the
  time elapsed between local midnight of the day of the computed \<open>next_review_date\<close> and
  that date is an exact multiple of the granularity plus the microseconds of the clock
  reading: the date is on a boundary exactly when the clock reading has no microseconds,
  and its whole seconds since midnight are always a multiple of the granularity. The
  rounding moves the timestamp \<open>now + N hours\<close> forward, never backwards, by at most
  one granularity.
\<close>

theorem set_next_review_time_lands_on_boundary:
  assumes "0 < REVIEW_ROUNDING_TIME cfg"
    and "int (REVIEW_ROUNDING_TIME cfg) dvd 86400"
    and "SRS_TIMES cfg (streak r) = Some N"
  shows "\<exists>t'. set_next_review_time cfg now r = Inr (r\<lparr>next_review_date := Some t'\<rparr>)
            \<and> (t' mod 86400000000) mod (int (REVIEW_ROUNDING_TIME cfg) * 1000000)
                = now mod 1000000
            \<and> now + hours N < t'
            \<and> t' \<le> now + hours N + int (REVIEW_ROUNDING_TIME cfg) * 1000000"
proof -
  define t' where "t' = round_up (REVIEW_ROUNDING_TIME cfg) (now + hours N)"
  have returns: "set_next_review_time cfg now r = Inr (r\<lparr>next_review_date := Some t'\<rparr>)"
    using assms(1,3) by (simp add: set_next_review_time_Some t'_def)
  have boundary: "(t' mod 86400000000) mod (int (REVIEW_ROUNDING_TIME cfg) * 1000000)
                    = now mod 1000000"
    unfolding t'_def
    using round_up_time_of_day [OF assms(1,2), of "now + hours N"]
    by (simp only: hours_microseconds)
  have forward: "now + hours N < t'"
    using assms(1) by (simp add: t'_def round_up_delta(1))
  have bounded: "t' \<le> now + hours N + int (REVIEW_ROUNDING_TIME cfg) * 1000000"
    using assms(1) round_up_delta(2) [of "REVIEW_ROUNDING_TIME cfg" "now + hours N"]
    by (simp add: t'_def)
  show ?thesis
    using returns boundary forward bounded by (intro exI [of _ t'] conjI)
qed

theorem set_next_review_time_lands_on_boundary_witness:
  "0 < REVIEW_ROUNDING_TIME example_config
   \<and> int (REVIEW_ROUNDING_TIME example_config) dvd 86400
   \<and> SRS_TIMES example_config (streak (new_review\<lparr>streak := 1\<rparr>)) = Some 4
   \<and> (\<exists>t'. set_next_review_time example_config 47262123456 (new_review\<lparr>streak := 1\<rparr>)
              = Inr (new_review\<lparr>streak := 1, next_review_date := Some t'\<rparr>)
          \<and> (t' mod 86400000000) mod (3600 * 1000000) = 123456
          \<and> 47262123456 + hours 4 < t'
          \<and> t' \<le> 47262123456 + hours 4 + 3600 * 1000000)"
  using set_next_review_time_lands_on_boundary
          [of example_config "new_review\<lparr>streak := 1\<rparr>" 4 47262123456]
  by (simp add: example_config_def)

text \<open>A clock reading of whole seconds, 13:07:42, gives a date on the hour, 18:00:00.\<close>

lemma set_next_review_time_whole_seconds:
  "set_next_review_time example_config 47262000000 (new_review\<lparr>streak := 1\<rparr>)
     = Inr (new_review\<lparr>streak := 1, next_review_date := Some 64800000000\<rparr>)
   \<and> (64800000000 mod 86400000000) mod (3600 * 1000000) = (0 :: int)"
  by (simp add: example_defs method_defs)

section \<open>Leaving vacation\<close>

text \<open>
  Claim C8, as stated, fails in its last part. \<open>answered_incorrectly\<close> lowers the streak
  and leaves \<open>next_review_date\<close> alone, so a record can carry a review time of an earlier
  streak. For \<open>studied_review\<close> after one incorrect answer (streak 1, due at
  22:00:00.123456 from the eight hours of streak 2), a vacation of 24 hours gives a
  review time that is 20 hours later than the one before, not 24: four hours off, beyond
  any rounding.
\<close>

theorem vacation_shift_counterexample:
  "\<not> burned (studied_review\<lparr>incorrect := 1, streak := 1\<rparr>)
   \<and> last_studied (studied_review\<lparr>incorrect := 1, streak := 1\<rparr>) = Some 47262123456
   \<and> next_review_date (studied_review\<lparr>incorrect := 1, streak := 1\<rparr>) = Some 79200123456
   \<and> bring_review_out_of_vacation example_config 86400000000
        (studied_review\<lparr>incorrect := 1, streak := 1\<rparr>)
       = Inr (studied_review\<lparr>incorrect := 1, streak := 1,
                last_studied := Some 140400123456, next_review_date := Some 151200123456\<rparr>)
   \<and> \<not> \<bar>151200123456 - 79200123456 - 86400000000\<bar> \<le> (2 * 3600 * 1000000 :: int)"
  by (simp add: example_defs method_defs)

text \<open>
  Claim C8, amended. For every record with a \<open>last_studied\<close> (burned or not) and a
  granularity that is positive and divides the day, \<open>bring_review_out_of_vacation\<close>
  returns. If the streak has no interval, \<open>last_studied\<close> is the old value plus the
  vacation and \<open>next_review_date\<close> is cleared. If the streak has an interval,
  \<open>next_review_date\<close> is the shifted \<open>last_studied\<close> plus the interval, rounded up (later
  by at most one granularity), and \<open>last_studied\<close> is the shifted value rounded up (later
  by at most two granularities); the time of day of both is a multiple of the granularity
  plus the microseconds of the shifted \<open>last_studied\<close>. The new \<open>next_review_date\<close> differs
  from the old one by the vacation up to the distance of the old one from
  \<open>last_studied\<close> plus the interval of the current streak, and one granularity more: by
  less than one granularity when the old one lay within one granularity after
  \<open>last_studied\<close> plus that interval.
\<close>

theorem bring_review_out_of_vacation_shift:
  assumes "0 < REVIEW_ROUNDING_TIME cfg"
    and "int (REVIEW_ROUNDING_TIME cfg) dvd 86400"
    and "last_studied r = Some ls"
  shows "(SRS_TIMES cfg (streak r) = None \<longrightarrow>
            bring_review_out_of_vacation cfg d r
              = Inr (r\<lparr>last_studied := Some (ls + d), next_review_date := None\<rparr>))
       \<and> (SRS_TIMES cfg (streak r) = Some h \<longrightarrow>
            (\<exists>ls' nr'.
               bring_review_out_of_vacation cfg d r
                 = Inr (r\<lparr>last_studied := Some ls', next_review_date := Some nr'\<rparr>)
               \<and> nr' = round_up (REVIEW_ROUNDING_TIME cfg) (ls + d + hours h)
               \<and> (nr' mod 86400000000) mod (int (REVIEW_ROUNDING_TIME cfg) * 1000000)
                   = (ls + d) mod 1000000
               \<and> ls + d + hours h < nr'
               \<and> nr' \<le> ls + d + hours h + int (REVIEW_ROUNDING_TIME cfg) * 1000000
               \<and> (ls' mod 86400000000) mod (int (REVIEW_ROUNDING_TIME cfg) * 1000000)
                   = (ls + d) mod 1000000
               \<and> ls + d < ls'
               \<and> ls' \<le> ls + d + 2 * int (REVIEW_ROUNDING_TIME cfg) * 1000000
               \<and> (next_review_date r = Some nb \<longrightarrow>
                    (\<bar>nb - (ls + hours h)\<bar> \<le> e \<longrightarrow>
                       \<bar>nr' - nb - d\<bar> \<le> e + int (REVIEW_ROUNDING_TIME cfg) * 1000000)
                    \<and> (ls + hours h < nb
                         \<and> nb \<le> ls + hours h + int (REVIEW_ROUNDING_TIME cfg) * 1000000 \<longrightarrow>
                       \<bar>nr' - nb - d\<bar> < int (REVIEW_ROUNDING_TIME cfg) * 1000000))))"
proof (intro conjI impI)
  assume "SRS_TIMES cfg (streak r) = None"
  with assms(3) show "bring_review_out_of_vacation cfg d r
              = Inr (r\<lparr>last_studied := Some (ls + d), next_review_date := None\<rparr>)"
    by (rule bring_review_out_of_vacation_None)
next
  assume h: "SRS_TIMES cfg (streak r) = Some h"
  define g where "g = REVIEW_ROUNDING_TIME cfg"
  define ls' where "ls' = round_up g (round_up g (ls + d))"
  define nr' where "nr' = round_up g (ls + d + hours h)"
  have g: "0 < g" "int g dvd 86400" using assms(1,2) by (simp_all add: g_def)
  have ret: "bring_review_out_of_vacation cfg d r
                 = Inr (r\<lparr>last_studied := Some ls', next_review_date := Some nr'\<rparr>)"
    using bring_review_out_of_vacation_Some [OF assms(1) assms(3) h]
    by (simp add: ls'_def nr'_def g_def)
  have nr_eq: "nr' = round_up g (ls + d + hours h)" by (simp add: nr'_def)
  have nr_b: "(nr' mod 86400000000) mod (int g * 1000000) = (ls + d) mod 1000000"
    unfolding nr'_def
    using round_up_time_of_day [OF g, of "ls + d + hours h"]
    by (simp only: hours_microseconds)
  have nr_lo: "ls + d + hours h < nr'"
    using round_up_delta(1) [OF g(1)] by (simp add: nr'_def)
  have nr_hi: "nr' \<le> ls + d + hours h + int g * 1000000"
    using round_up_delta(2) [OF g(1), of "ls + d + hours h"] by (simp add: nr'_def)
  have ls_b: "(ls' mod 86400000000) mod (int g * 1000000) = (ls + d) mod 1000000"
    unfolding ls'_def by (rule round_up_twice_time_of_day [OF g])
  have ls_lo: "ls + d < ls'"
    using round_up_twice(1) [OF g(1)] by (simp add: ls'_def)
  have ls_hi: "ls' \<le> ls + d + 2 * int g * 1000000"
    using round_up_twice(2) [OF g(1), of "ls + d"] by (simp add: ls'_def)
  have shift: "next_review_date r = Some nb \<longrightarrow>
                 (\<bar>nb - (ls + hours h)\<bar> \<le> e \<longrightarrow> \<bar>nr' - nb - d\<bar> \<le> e + int g * 1000000)
                 \<and> (ls + hours h < nb \<and> nb \<le> ls + hours h + int g * 1000000 \<longrightarrow>
                      \<bar>nr' - nb - d\<bar> < int g * 1000000)"
    using nr_lo nr_hi by linarith
  show "\<exists>ls' nr'.
               bring_review_out_of_vacation cfg d r
                 = Inr (r\<lparr>last_studied := Some ls', next_review_date := Some nr'\<rparr>)
               \<and> nr' = round_up (REVIEW_ROUNDING_TIME cfg) (ls + d + hours h)
               \<and> (nr' mod 86400000000) mod (int (REVIEW_ROUNDING_TIME cfg) * 1000000)
                   = (ls + d) mod 1000000
               \<and> ls + d + hours h < nr'
               \<and> nr' \<le> ls + d + hours h + int (REVIEW_ROUNDING_TIME cfg) * 1000000
               \<and> (ls' mod 86400000000) mod (int (REVIEW_ROUNDING_TIME cfg) * 1000000)
                   = (ls + d) mod 1000000
               \<and> ls + d < ls'
               \<and> ls' \<le> ls + d + 2 * int (REVIEW_ROUNDING_TIME cfg) * 1000000
               \<and> (next_review_date r = Some nb \<longrightarrow>
                    (\<bar>nb - (ls + hours h)\<bar> \<le> e \<longrightarrow>
                       \<bar>nr' - nb - d\<bar> \<le> e + int (REVIEW_ROUNDING_TIME cfg) * 1000000)
                    \<and> (ls + hours h < nb
                         \<and> nb \<le> ls + hours h + int (REVIEW_ROUNDING_TIME cfg) * 1000000 \<longrightarrow>
                       \<bar>nr' - nb - d\<bar> < int (REVIEW_ROUNDING_TIME cfg) * 1000000))"
    using ret nr_eq nr_b nr_lo nr_hi ls_b ls_lo ls_hi shift
    unfolding g_def by (intro exI [of _ ls'] exI [of _ nr'] conjI)
qed

text \<open>
  The witness is the record \<open>answered_correctly\<close> returns for clock readings one
  microsecond apart (lemma \<open>studied_review_two_clocks\<close>): its review time is not the
  rounded \<open>last_studied\<close> plus the interval, and a vacation of 24 hours moves it by 24
  hours less one microsecond.
\<close>

theorem bring_review_out_of_vacation_shift_witness:
  "0 < REVIEW_ROUNDING_TIME example_config
   \<and> int (REVIEW_ROUNDING_TIME example_config) dvd 86400
   \<and> \<not> burned (studied_review\<lparr>next_review_date := Some 79200123457\<rparr>)
   \<and> last_studied (studied_review\<lparr>next_review_date := Some 79200123457\<rparr>) = Some 47262123456
   \<and> SRS_TIMES example_config (streak (studied_review\<lparr>next_review_date := Some 79200123457\<rparr>))
       = Some 8
   \<and> next_review_date (studied_review\<lparr>next_review_date := Some 79200123457\<rparr>)
       = Some 79200123457
   \<and> 47262123456 + hours 8 < 79200123457
   \<and> 79200123457 \<le> 47262123456 + hours 8 + 3600 * 1000000
   \<and> \<bar>79200123457 - (47262123456 + hours 8)\<bar> \<le> 3600 * 1000000
   \<and> bring_review_out_of_vacation example_config 86400000000
        (studied_review\<lparr>next_review_date := Some 79200123457\<rparr>)
       = Inr (studied_review\<lparr>last_studied := Some 140400123456,
                               next_review_date := Some 165600123456\<rparr>)
   \<and> (165600123456 mod 86400000000) mod (3600 * 1000000) = (123456 :: int)
   \<and> (140400123456 mod 86400000000) mod (3600 * 1000000) = (123456 :: int)
   \<and> 165600123456 - 79200123457 - 86400000000 = (- 1 :: int)
   \<and> \<bar>165600123456 - 79200123457 - 86400000000\<bar> < (3600 * 1000000 :: int)"
  using bring_review_out_of_vacation_shift
          [of example_config "studied_review\<lparr>next_review_date := Some 79200123457\<rparr>"
              47262123456 86400000000 8 79200123457 "3600 * 1000000"]
  by (simp add: example_defs method_defs)

section \<open>A streak without an interval\<close>

text \<open>
  Claim C9, as stated, fails: \<open>set_next_review_time\<close> tests whether the streak is a key of
  the table and clears \<open>next_review_date\<close> when it is not. A record of streak 9 that is not
  burned is graded without any exception.
\<close>

theorem missing_interval_counterexample:
  "SRS_TIMES example_config (streak (new_review\<lparr>streak := 9\<rparr>)) = None
   \<and> \<not> burned (new_review\<lparr>streak := 9\<rparr>)
   \<and> answered_correctly example_config 47262123456 47262123456 False (new_review\<lparr>streak := 9\<rparr>)
       = Inr (new_review\<lparr>streak := 9, needs_review := False,
                last_studied := Some 47262123456, next_review_date := None\<rparr>)"
  by (simp add: example_defs method_defs)

text \<open>
  Claim C9, amended. For every record whose streak is absent from the interval table
  (burned or not), the operations that test the table proceed without an exception and
  clear \<open>next_review_date\<close>: \<open>set_next_review_time\<close> returns the record with the date
  cleared; \<open>answered_correctly\<close> without \<open>first_try\<close> on a streak other than 0 returns
  with the date cleared, whenever the criticality check does not divide by zero; and
  \<open>bring_review_out_of_vacation\<close> returns with the date cleared when \<open>last_studied\<close> is
  set. Only \<open>set_next_review_time_based_on_last_studied\<close>, which indexes the table
  without a test, raises (a \<open>KeyError\<close>).
\<close>

theorem missing_interval_clears_schedule:
  assumes "SRS_TIMES cfg (streak r) = None"
  shows "set_next_review_time cfg now r = Inr (r\<lparr>next_review_date := None\<rparr>)
       \<and> (streak r \<noteq> 0 \<longrightarrow>
            0 < correct r + incorrect r \<or> 0 < MINIMUM_ATTEMPT_COUNT_FOR_CRITICALITY cfg \<longrightarrow>
            (\<exists>r'. answered_correctly cfg now1 now2 False r = Inr r'
                  \<and> next_review_date r' = None \<and> streak r' = streak r
                  \<and> burned r' = burned r))
       \<and> (last_studied r = Some ls \<longrightarrow>
            bring_review_out_of_vacation cfg d r
              = Inr (r\<lparr>last_studied := Some (ls + d), next_review_date := None\<rparr>))
       \<and> set_next_review_time_based_on_last_studied cfg r = Inl KeyError"
proof (intro conjI impI)
  show "set_next_review_time cfg now r = Inr (r\<lparr>next_review_date := None\<rparr>)"
    using assms by (rule set_next_review_time_None)
next
  assume s: "streak r \<noteq> 0"
    and c: "0 < correct r + incorrect r \<or> 0 < MINIMUM_ATTEMPT_COUNT_FOR_CRITICALITY cfg"
  define r3 where "r3 = r\<lparr>needs_review := False, last_studied := Some now1\<rparr>"
  have "set_next_review_time cfg now2 r3 = Inr (r3\<lparr>next_review_date := None\<rparr>)"
    using assms by (simp add: set_next_review_time_None r3_def)
  then have "answered_correctly cfg now1 now2 False r
               = set_criticality cfg (r3\<lparr>next_review_date := None\<rparr>)"
    using s by (simp add: answered_correctly_def Let_def r3_def)
  moreover have "0 < correct (r3\<lparr>next_review_date := None\<rparr>)
                       + incorrect (r3\<lparr>next_review_date := None\<rparr>)
                 \<or> 0 < MINIMUM_ATTEMPT_COUNT_FOR_CRITICALITY cfg"
    using c by (simp add: r3_def)
  ultimately have "answered_correctly cfg now1 now2 False r
      = Inr (r3\<lparr>next_review_date := None,
                critical := critical_condition cfg (correct r) (incorrect r)\<rparr>)"
    by (simp add: set_criticality_returns r3_def)
  then show "\<exists>r'. answered_correctly cfg now1 now2 False r = Inr r'
                  \<and> next_review_date r' = None \<and> streak r' = streak r
                  \<and> burned r' = burned r"
    by (simp add: r3_def)
next
  assume "last_studied r = Some ls"
  then show "bring_review_out_of_vacation cfg d r
              = Inr (r\<lparr>last_studied := Some (ls + d), next_review_date := None\<rparr>)"
    using assms by (rule bring_review_out_of_vacation_None)
next
  show "set_next_review_time_based_on_last_studied cfg r = Inl KeyError"
    using assms by (simp add: set_next_review_time_based_on_last_studied_def)
qed

theorem missing_interval_clears_schedule_witness:
  "SRS_TIMES example_config (streak (studied_review\<lparr>streak := 9\<rparr>)) = None
   \<and> \<not> burned (studied_review\<lparr>streak := 9\<rparr>)
   \<and> set_next_review_time example_config 50000000000 (studied_review\<lparr>streak := 9\<rparr>)
       = Inr (studied_review\<lparr>streak := 9, next_review_date := None\<rparr>)
   \<and> streak (studied_review\<lparr>streak := 9\<rparr>) \<noteq> 0
   \<and> 0 < MINIMUM_ATTEMPT_COUNT_FOR_CRITICALITY example_config
   \<and> (\<exists>r'. answered_correctly example_config 50000000000 50000000000 False
               (studied_review\<lparr>streak := 9\<rparr>) = Inr r'
          \<and> next_review_date r' = None \<and> streak r' = 9 \<and> \<not> burned r')
   \<and> last_studied (studied_review\<lparr>streak := 9\<rparr>) = Some 47262123456
   \<and> bring_review_out_of_vacation example_config 86400000000 (studied_review\<lparr>streak := 9\<rparr>)
       = Inr (studied_review\<lparr>streak := 9, last_studied := Some 133662123456,
                next_review_date := None\<rparr>)
   \<and> set_next_review_time_based_on_last_studied example_config (studied_review\<lparr>streak := 9\<rparr>)
       = Inl KeyError"
  using missing_interval_clears_schedule
          [of example_config "studied_review\<lparr>streak := 9\<rparr>" 50000000000
              50000000000 50000000000 47262123456 86400000000]
  by (simp add: example_config_def studied_review_def)

section \<open>The counters\<close>

text \<open>
  Claim C10, as stated, fails for \<open>reset\<close>, which assigns the counters: the burned record
  with seven correct answers has one after the reset.
\<close>

theorem reset_counters_counterexample:
  "correct burned_review = 7
   \<and> correct (reset 50000000000 burned_review) = 1
   \<and> \<not> correct burned_review \<le> correct (reset 50000000000 burned_review)"
  by (simp add: example_defs method_defs)

text \<open>
  Claim C10, amended. For every record, the counters \<open>correct\<close> and \<open>incorrect\<close> of the
  record returned by \<open>answered_correctly\<close>, \<open>answered_incorrectly\<close> (which always
  returns) and \<open>bring_review_out_of_vacation\<close> are each at least their values in the input
  record. \<open>reset\<close> is the exception: it sets \<open>correct\<close> to 1 and \<open>incorrect\<close> to 0, whatever
  they were.
\<close>

theorem counters_after_operations:
  "(answered_correctly cfg now1 now2 first_try r = Inr r1 \<longrightarrow>
      correct r \<le> correct r1 \<and> incorrect r \<le> incorrect r1)
   \<and> (\<exists>r2. answered_incorrectly cfg r = Inr r2
         \<and> correct r \<le> correct r2 \<and> incorrect r \<le> incorrect r2)
   \<and> (bring_review_out_of_vacation cfg d r = Inr r3 \<longrightarrow>
        correct r \<le> correct r3 \<and> incorrect r \<le> incorrect r3)
   \<and> correct (reset now r) = 1 \<and> incorrect (reset now r) = 0"
proof (intro conjI impI)
  assume a: "answered_correctly cfg now1 now2 first_try r = Inr r1"
  show "correct r \<le> correct r1" using answered_correctly_Inr(2) [OF a] by simp
  show "incorrect r \<le> incorrect r1" using answered_correctly_Inr(3) [OF a] by simp
next
  show "\<exists>r2. answered_incorrectly cfg r = Inr r2
         \<and> correct r \<le> correct r2 \<and> incorrect r \<le> incorrect r2"
    by (simp add: answered_incorrectly_eq)
next
  assume a: "bring_review_out_of_vacation cfg d r = Inr r3"
  show "correct r \<le> correct r3" using bring_review_out_of_vacation_Inr(1) [OF a] by simp
  show "incorrect r \<le> incorrect r3" using bring_review_out_of_vacation_Inr(2) [OF a] by simp
next
  show "correct (reset now r) = 1" by (simp add: reset_def)
  show "incorrect (reset now r) = 0" by (simp add: reset_def)
qed

theorem counters_after_operations_witness:
  "answered_correctly example_config 47262123456 47262123456 True studied_review
     = Inr (studied_review\<lparr>correct := 2, streak := 3, next_review_date := Some 136800123456\<rparr>)
   \<and> correct studied_review
       \<le> correct (studied_review\<lparr>correct := 2, streak := 3,
                      next_review_date := Some 136800123456\<rparr>)
   \<and> bring_review_out_of_vacation example_config 86400000000 studied_review
       = Inr (studied_review\<lparr>last_studied := Some 140400123456,
                               next_review_date := Some 165600123456\<rparr>)
   \<and> incorrect studied_review
       \<le> incorrect (studied_review\<lparr>last_studied := Some 140400123456,
                               next_review_date := Some 165600123456\<rparr>)"
  using counters_after_operations
       [of example_config 47262123456 47262123456 True studied_review
        "studied_review\<lparr>correct := 2, streak := 3, next_review_date := Some 136800123456\<rparr>"
        86400000000
        "studied_review\<lparr>last_studied := Some 140400123456,
                               next_review_date := Some 165600123456\<rparr>"]
  by (simp add: example_defs method_defs)

end
